theory Spec2Isabelle
  imports Main
begin

section \<open>JavaScript values used by the stores\<close>

text \<open>
  A property of a JavaScript object that the request schema declares optional and
  nullable is either missing (reading it gives \<^verbatim>\<open>undefined\<close>), \<^verbatim>\<open>null\<close>, or a value.
\<close>

datatype 'a field = Absent | Null | Val 'a

text \<open>Truthiness of a boolean property: \<^verbatim>\<open>if (x.isActive)\<close>, \<^verbatim>\<open>!!x.isPrinted\<close>.\<close>

fun truthy :: "bool field \<Rightarrow> bool" where
  "truthy (Val b) = b"
| "truthy Absent = False"
| "truthy Null = False"

text \<open>
  \<^verbatim>\<open>x || 0\<close> on a numeric property: \<^verbatim>\<open>undefined\<close>, \<^verbatim>\<open>null\<close> and \<^verbatim>\<open>0\<close> are falsy and
  give the right operand. Counters are integers that stay far inside the range in which
  JavaScript numbers are exact, so they are modelled as \<^typ>\<open>int\<close>.
\<close>

fun or_zero :: "int field \<Rightarrow> int" where
  "or_zero (Val n) = (if n = 0 then 0 else n)"
| "or_zero Absent = 0"
| "or_zero Null = 0"

text \<open>
  \<^verbatim>\<open>const x = xs.find(p); ... x.f = v\<close> mutates the first element of the array that
  satisfies \<open>p\<close>, in place. \<open>update_first\<close> is that write on the list.
\<close>

fun update_first :: "('a \<Rightarrow> bool) \<Rightarrow> ('a \<Rightarrow> 'a) \<Rightarrow> 'a list \<Rightarrow> 'a list" where
  "update_first p f [] = []"
| "update_first p f (x # xs) = (if p x then f x # xs else x # update_first p f xs)"

section \<open>The in-memory store (\<^verbatim>\<open>InMemoryStorage\<close> in server/storage.ts)\<close>

text \<open>
  The objects held in \<^verbatim>\<open>this.intentions\<close>. \<^verbatim>\<open>createIntention\<close> always sets the id, the
  two timestamps, the three counters and \<^verbatim>\<open>isPrinted\<close>; \<^verbatim>\<open>content\<close>, \<^verbatim>\<open>name\<close> and
  \<^verbatim>\<open>prayerType\<close> are spread from the request. Timestamps are milliseconds.
\<close>

record intention =
  i_id :: int
  i_content :: string
  i_name :: "string field"
  i_prayerType :: "string field"
  i_hailMaryCount :: int
  i_ourFatherCount :: int
  i_rosaryCount :: int
  i_isPrinted :: bool
  i_createdAt :: int
  i_updatedAt :: int

text \<open>
  The argument of \<^verbatim>\<open>createIntention\<close>. The route passes what \<^verbatim>\<open>insertIntentionSchema\<close>
  lets through (content, name, prayerType); \<^verbatim>\<open>seedDatabase\<close> passes the counters and
  \<^verbatim>\<open>isPrinted\<close> as well.
\<close>

record insert_intention =
  ii_content :: string
  ii_name :: "string field"
  ii_prayerType :: "string field"
  ii_hailMaryCount :: "int field"
  ii_ourFatherCount :: "int field"
  ii_rosaryCount :: "int field"
  ii_isPrinted :: "bool field"

text \<open>
  The objects held in \<^verbatim>\<open>this.challenges\<close>. \<^verbatim>\<open>isActive\<close> is whatever the request
  carried, so it may be missing or null.
\<close>

record challenge =
  c_id :: int
  c_title :: string
  c_prayerType :: string
  c_totalTarget :: int
  c_currentCount :: int
  c_isActive :: "bool field"
  c_createdAt :: int
  c_updatedAt :: int

text \<open>
  The argument of \<^verbatim>\<open>createChallenge\<close>: \<^verbatim>\<open>insertChallengeSchema\<close> requires title,
  prayerType and totalTarget and makes isActive optional and nullable;
  \<^verbatim>\<open>seedDatabase\<close> also passes currentCount.
\<close>

record insert_challenge =
  ic_title :: string
  ic_prayerType :: string
  ic_totalTarget :: int
  ic_currentCount :: "int field"
  ic_isActive :: "bool field"

text \<open>
  The argument of \<^verbatim>\<open>updateChallenge\<close>, \<^verbatim>\<open>Partial<InsertChallenge>\<close>: every key may be
  missing (\<open>None\<close>, \<open>Absent\<close>).
\<close>

record update_challenge =
  uc_title :: "string option"
  uc_prayerType :: "string option"
  uc_totalTarget :: "int option"
  uc_isActive :: "bool field"

text \<open>
  The fields of the class that the intention and challenge operations use
  (\<^verbatim>\<open>users\<close> and \<^verbatim>\<open>userId\<close> are touched by none of them).
\<close>

record store =
  intentions :: "intention list"
  challenges :: "challenge list"
  intentionId :: int
  challengeId :: int

text \<open>\<^verbatim>\<open>new InMemoryStorage()\<close>.\<close>

definition new_store :: store where
  "new_store = \<lparr>intentions = [], challenges = [], intentionId = 1, challengeId = 1\<rparr>"

subsection \<open>Intentions\<close>

text \<open>
  Every operation that calls \<^verbatim>\<open>new Date()\<close> takes the clock reading \<open>now\<close> as an
  argument, and returns the new store together with its result.
\<close>

definition createIntention :: "store \<Rightarrow> int \<Rightarrow> insert_intention \<Rightarrow> store \<times> intention" where
  "createIntention s now inp =
     (let newInt = \<lparr>i_id = intentionId s,
                     i_content = ii_content inp,
                     i_name = ii_name inp,
                     i_prayerType = ii_prayerType inp,
                     i_hailMaryCount = or_zero (ii_hailMaryCount inp),
                     i_ourFatherCount = or_zero (ii_ourFatherCount inp),
                     i_rosaryCount = or_zero (ii_rosaryCount inp),
                     i_isPrinted = truthy (ii_isPrinted inp),
                     i_createdAt = now,
                     i_updatedAt = now\<rparr>
      in (s\<lparr>intentions := intentions s @ [newInt], intentionId := intentionId s + 1\<rparr>,
          newInt))"

text \<open>
  \<^verbatim>\<open>[...this.intentions].sort((a, b) => b.createdAt - a.createdAt)\<close>: a stable sort,
  newest first.
\<close>

definition getIntentions :: "store \<Rightarrow> intention list" where
  "getIntentions s = sort_key (\<lambda>i. - i_createdAt i) (intentions s)"

text \<open>
  The three tests on \<^verbatim>\<open>type\<close> are separate \<^verbatim>\<open>if\<close> statements, not an else-chain; a
  string that is none of the three names changes only \<^verbatim>\<open>updatedAt\<close>.
\<close>

definition bump_prayer :: "string \<Rightarrow> int \<Rightarrow> intention \<Rightarrow> intention" where
  "bump_prayer ty now it =
     (let it1 = (if ty = ''hailMary''
                 then it\<lparr>i_hailMaryCount := or_zero (Val (i_hailMaryCount it)) + 1\<rparr> else it);
          it2 = (if ty = ''ourFather''
                 then it1\<lparr>i_ourFatherCount := or_zero (Val (i_ourFatherCount it1)) + 1\<rparr> else it1);
          it3 = (if ty = ''rosary''
                 then it2\<lparr>i_rosaryCount := or_zero (Val (i_rosaryCount it2)) + 1\<rparr> else it2)
      in it3\<lparr>i_updatedAt := now\<rparr>)"

definition incrementIntentionPrayer ::
  "store \<Rightarrow> int \<Rightarrow> int \<Rightarrow> string \<Rightarrow> store \<times> intention option" where
  "incrementIntentionPrayer s now ident ty =
     (case find (\<lambda>i. i_id i = ident) (intentions s) of
        None \<Rightarrow> (s, None)
      | Some it \<Rightarrow>
          (s\<lparr>intentions := update_first (\<lambda>i. i_id i = ident) (bump_prayer ty now) (intentions s)\<rparr>,
           Some (bump_prayer ty now it)))"

definition markIntentionPrinted :: "store \<Rightarrow> int \<Rightarrow> int \<Rightarrow> store \<times> intention option" where
  "markIntentionPrinted s now ident =
     (case find (\<lambda>i. i_id i = ident) (intentions s) of
        None \<Rightarrow> (s, None)
      | Some it \<Rightarrow>
          (s\<lparr>intentions := update_first (\<lambda>i. i_id i = ident)
                 (\<lambda>i. i\<lparr>i_isPrinted := True, i_updatedAt := now\<rparr>) (intentions s)\<rparr>,
           Some (it\<lparr>i_isPrinted := True, i_updatedAt := now\<rparr>)))"

subsection \<open>Challenges\<close>

text \<open>\<^verbatim>\<open>this.challenges.forEach((c) => (c.isActive = false))\<close>.\<close>

definition deactivate_all :: "challenge list \<Rightarrow> challenge list" where
  "deactivate_all cs = map (\<lambda>c. c\<lparr>c_isActive := Val False\<rparr>) cs"

definition createChallenge :: "store \<Rightarrow> int \<Rightarrow> insert_challenge \<Rightarrow> store \<times> challenge" where
  "createChallenge s now inp =
     (let cs = (if truthy (ic_isActive inp) then deactivate_all (challenges s)
                else challenges s);
          newCh = \<lparr>c_id = challengeId s,
                    c_title = ic_title inp,
                    c_prayerType = ic_prayerType inp,
                    c_totalTarget = ic_totalTarget inp,
                    c_currentCount = or_zero (ic_currentCount inp),
                    c_isActive = ic_isActive inp,
                    c_createdAt = now,
                    c_updatedAt = now\<rparr>
      in (s\<lparr>challenges := cs @ [newCh], challengeId := challengeId s + 1\<rparr>, newCh))"

definition getChallenges :: "store \<Rightarrow> challenge list" where
  "getChallenges s = sort_key (\<lambda>c. - c_createdAt c) (challenges s)"

definition getActiveChallenge :: "store \<Rightarrow> challenge option" where
  "getActiveChallenge s = find (\<lambda>c. truthy (c_isActive c)) (challenges s)"

text \<open>
  \<^verbatim>\<open>Object.assign(ch, updates, { updatedAt: new Date() })\<close> copies the keys that
  \<^verbatim>\<open>updates\<close> has and leaves the others as they are.
\<close>

definition assign_updates :: "update_challenge \<Rightarrow> int \<Rightarrow> challenge \<Rightarrow> challenge" where
  "assign_updates u now ch =
     ch\<lparr>c_title := (case uc_title u of None \<Rightarrow> c_title ch | Some t \<Rightarrow> t),
        c_prayerType := (case uc_prayerType u of None \<Rightarrow> c_prayerType ch | Some p \<Rightarrow> p),
        c_totalTarget := (case uc_totalTarget u of None \<Rightarrow> c_totalTarget ch | Some n \<Rightarrow> n),
        c_isActive := (case uc_isActive u of Absent \<Rightarrow> c_isActive ch | a \<Rightarrow> a),
        c_updatedAt := now\<rparr>"

text \<open>
  The lookup comes first: an unknown id returns before anything is written. \<^verbatim>\<open>ch\<close> is
  an element of the array, so the \<^verbatim>\<open>forEach\<close> clears its flag too before
  \<^verbatim>\<open>Object.assign\<close> writes the update into it.
\<close>

definition updateChallenge ::
  "store \<Rightarrow> int \<Rightarrow> int \<Rightarrow> update_challenge \<Rightarrow> store \<times> challenge option" where
  "updateChallenge s now ident u =
     (case find (\<lambda>c. c_id c = ident) (challenges s) of
        None \<Rightarrow> (s, None)
      | Some ch \<Rightarrow>
          (let cs = (if truthy (uc_isActive u) then deactivate_all (challenges s)
                     else challenges s);
               ch1 = (if truthy (uc_isActive u) then ch\<lparr>c_isActive := Val False\<rparr> else ch)
           in (s\<lparr>challenges := update_first (\<lambda>c. c_id c = ident) (assign_updates u now) cs\<rparr>,
               Some (assign_updates u now ch1))))"

definition deleteChallenge :: "store \<Rightarrow> int \<Rightarrow> store" where
  "deleteChallenge s ident = s\<lparr>challenges := filter (\<lambda>c. c_id c \<noteq> ident) (challenges s)\<rparr>"

definition incrementChallenge ::
  "store \<Rightarrow> int \<Rightarrow> int \<Rightarrow> int \<Rightarrow> store \<times> challenge option" where
  "incrementChallenge s now ident amount =
     (case find (\<lambda>c. c_id c = ident) (challenges s) of
        None \<Rightarrow> (s, None)
      | Some ch \<Rightarrow>
          (s\<lparr>challenges := update_first (\<lambda>c. c_id c = ident)
                 (\<lambda>c. c\<lparr>c_currentCount := or_zero (Val (c_currentCount c)) + amount,
                        c_updatedAt := now\<rparr>) (challenges s)\<rparr>,
           Some (ch\<lparr>c_currentCount := or_zero (Val (c_currentCount ch)) + amount,
                    c_updatedAt := now\<rparr>)))"

section \<open>The HTTP handlers (server/routes.ts)\<close>

text \<open>
  A response is a status code and a JSON body. The handlers receive the path parameter
  after \<^verbatim>\<open>parseInt\<close>; a parameter that is not a number parses to \<^verbatim>\<open>NaN\<close>, which is
  equal to no stored id, and is covered by any integer that no record carries.
\<close>

datatype body = Message string | IntentionBody intention | ChallengeBody challenge | NoBody

type_synonym response = "nat \<times> body"

text \<open>
  \<^verbatim>\<open>POST /api/challenges/:id/increment\<close>. The request may carry a body; the handler
  reads only \<^verbatim>\<open>req.params.id\<close> and passes the constant 1 to the store.
\<close>

record increment_request =
  param_id :: int
  body_amount :: "int field"

definition post_challenge_increment :: "store \<Rightarrow> int \<Rightarrow> increment_request \<Rightarrow> store \<times> response" where
  "post_challenge_increment s now req =
     (case incrementChallenge s now (param_id req) 1 of
        (s', None) \<Rightarrow> (s', (404, Message ''Challenge not found''))
      | (s', Some ch) \<Rightarrow> (s', (200, ChallengeBody ch)))"

text \<open>
  \<^verbatim>\<open>POST /api/intentions/:id/pray\<close>. \<^verbatim>\<open>type\<close> is read from the body; a body without it
  (or with a value that is not one of the three strings) fails the \<^verbatim>\<open>includes\<close> test.
\<close>

definition post_intention_pray :: "store \<Rightarrow> int \<Rightarrow> int \<Rightarrow> string field \<Rightarrow> store \<times> response" where
  "post_intention_pray s now ident ty =
     (case ty of
        Val t \<Rightarrow>
          (if t \<notin> set [''hailMary'', ''ourFather'', ''rosary'']
           then (s, (400, Message ''Invalid prayer type''))
           else (case incrementIntentionPrayer s now ident t of
                   (s', None) \<Rightarrow> (s', (404, Message ''Intention not found''))
                 | (s', Some it) \<Rightarrow> (s', (200, IntentionBody it))))
      | _ \<Rightarrow> (s, (400, Message ''Invalid prayer type'')))"

text \<open>\<^verbatim>\<open>DELETE /api/admin/challenges/:id\<close>: the store's result is not looked at.\<close>

definition delete_admin_challenge :: "store \<Rightarrow> int \<Rightarrow> store \<times> response" where
  "delete_admin_challenge s ident = (deleteChallenge s ident, (204, NoBody))"

section \<open>The database store (\<^verbatim>\<open>DatabaseStorage\<close>), challenges table\<close>

text \<open>
  A row of \<^verbatim>\<open>challenges\<close> as shared/schema.ts declares it: \<^verbatim>\<open>current_count\<close>,
  \<^verbatim>\<open>is_active\<close> and \<^verbatim>\<open>created_at\<close> are nullable columns with defaults 0, true and now.
\<close>

record challenge_row =
  r_id :: int
  r_title :: string
  r_prayerType :: string
  r_totalTarget :: int
  r_currentCount :: "int option"
  r_isActive :: "bool option"
  r_createdAt :: "int option"

record database =
  challenges_table :: "challenge_row list"
  challenges_id_seq :: int

text \<open>
  A statement that cannot run is an exception in the caller: \<^verbatim>\<open>update ... set\<close> with
  no column to set.
\<close>

datatype db_error = NoValuesToSet

text \<open>
  \<^verbatim>\<open>db.update(challenges).set({ isActive: false }).where(eq(challenges.isActive, true))\<close>
\<close>

definition db_deactivate_active :: "challenge_row list \<Rightarrow> challenge_row list" where
  "db_deactivate_active t =
     map (\<lambda>r. if r_isActive r = Some True then r\<lparr>r_isActive := Some False\<rparr> else r) t"

text \<open>
  \<^verbatim>\<open>insert ... values(challenge)\<close>: a missing key takes the column default, null is
  stored as null.
\<close>

definition db_createChallenge ::
  "database \<Rightarrow> int \<Rightarrow> insert_challenge \<Rightarrow> database \<times> challenge_row" where
  "db_createChallenge d now inp =
     (let t = (if truthy (ic_isActive inp) then db_deactivate_active (challenges_table d)
               else challenges_table d);
          newChallenge = \<lparr>r_id = challenges_id_seq d,
                           r_title = ic_title inp,
                           r_prayerType = ic_prayerType inp,
                           r_totalTarget = ic_totalTarget inp,
                           r_currentCount = (case ic_currentCount inp of
                                               Absent \<Rightarrow> Some 0 | Null \<Rightarrow> None | Val n \<Rightarrow> Some n),
                           r_isActive = (case ic_isActive inp of
                                           Absent \<Rightarrow> Some True | Null \<Rightarrow> None | Val b \<Rightarrow> Some b),
                           r_createdAt = Some now\<rparr>
      in (d\<lparr>challenges_table := t @ [newChallenge],
            challenges_id_seq := challenges_id_seq d + 1\<rparr>, newChallenge))"

text \<open>\<^verbatim>\<open>.set(updates)\<close> on one row.\<close>

definition db_set_updates :: "update_challenge \<Rightarrow> challenge_row \<Rightarrow> challenge_row" where
  "db_set_updates u r =
     r\<lparr>r_title := (case uc_title u of None \<Rightarrow> r_title r | Some t \<Rightarrow> t),
       r_prayerType := (case uc_prayerType u of None \<Rightarrow> r_prayerType r | Some p \<Rightarrow> p),
       r_totalTarget := (case uc_totalTarget u of None \<Rightarrow> r_totalTarget r | Some n \<Rightarrow> n),
       r_isActive := (case uc_isActive u of
                        Absent \<Rightarrow> r_isActive r | Null \<Rightarrow> None | Val b \<Rightarrow> Some b)\<rparr>"

text \<open>
  The deactivating statement runs first, whether or not a row has the id; then the
  update of the rows with that id, whose first returned row is the result.
\<close>

definition db_updateChallenge ::
  "database \<Rightarrow> int \<Rightarrow> update_challenge \<Rightarrow> db_error + database \<times> challenge_row option" where
  "db_updateChallenge d ident u =
     (let t = (if truthy (uc_isActive u) then db_deactivate_active (challenges_table d)
               else challenges_table d)
      in if uc_title u = None \<and> uc_prayerType u = None \<and> uc_totalTarget u = None
            \<and> uc_isActive u = Absent
         then Inl NoValuesToSet
         else (let t' = map (\<lambda>r. if r_id r = ident then db_set_updates u r else r) t
               in Inr (d\<lparr>challenges_table := t'\<rparr>,
                       (case filter (\<lambda>r. r_id r = ident) t' of
                          [] \<Rightarrow> None
                        | updated # _ \<Rightarrow> Some updated))))"

section \<open>Active challenges\<close>

definition is_active :: "challenge \<Rightarrow> bool" where
  "is_active c = truthy (c_isActive c)"

definition active_count :: "challenge list \<Rightarrow> nat" where
  "active_count cs = length (filter is_active cs)"

definition db_active_count :: "challenge_row list \<Rightarrow> nat" where
  "db_active_count t = length (filter (\<lambda>r. r_isActive r = Some True) t)"

section \<open>Concrete stores\<close>

text \<open>The challenge that \<^verbatim>\<open>seedDatabase\<close> creates in an empty store.\<close>

definition seed_challenge :: insert_challenge where
  "seed_challenge = \<lparr>ic_title = ''Weekly Rosary Challenge'', ic_prayerType = ''Rosary'',
     ic_totalTarget = 1000, ic_currentCount = Val 42, ic_isActive = Val True\<rparr>"

definition seeded_store :: store where
  "seeded_store = fst (createChallenge new_store 1000 seed_challenge)"

definition seeded_database :: database where
  "seeded_database =
     fst (db_createChallenge \<lparr>challenges_table = [], challenges_id_seq = 1\<rparr> 1000 seed_challenge)"

text \<open>The update \<^verbatim>\<open>{ isActive: true }\<close>, which sets no other field.\<close>

definition only_activate :: update_challenge where
  "only_activate = \<lparr>uc_title = None, uc_prayerType = None, uc_totalTarget = None,
     uc_isActive = Val True\<rparr>"

text \<open>A create request that does not mention \<^verbatim>\<open>isActive\<close>.\<close>

definition no_flag_challenge :: insert_challenge where
  "no_flag_challenge = \<lparr>ic_title = ''Lent'', ic_prayerType = ''Our Father'',
     ic_totalTarget = 500, ic_currentCount = Absent, ic_isActive = Absent\<rparr>"

text \<open>The seeded store after a second challenge was created without \<^verbatim>\<open>isActive\<close>.\<close>

definition two_challenges :: store where
  "two_challenges = fst (createChallenge seeded_store 2000 no_flag_challenge)"

text \<open>The second intention that \<^verbatim>\<open>seedDatabase\<close> creates, alone in a new store.\<close>

definition seed_intention :: insert_intention where
  "seed_intention = \<lparr>ii_content = ''For clarity in my career path.'', ii_name = Val ''Anonymous'',
     ii_prayerType = Val ''Hail Mary'', ii_hailMaryCount = Val 12, ii_ourFatherCount = Val 0,
     ii_rosaryCount = Val 0, ii_isPrinted = Val False\<rparr>"

definition one_intention :: store where
  "one_intention = fst (createIntention new_store 1000 seed_intention)"

section \<open>Basic facts\<close>

lemma or_zero_Val [simp]: "or_zero (Val n) = n"
  by simp

lemma update_first_at:
  "i < length xs \<Longrightarrow> p (xs ! i) \<Longrightarrow> \<forall>j<i. \<not> p (xs ! j)
     \<Longrightarrow> update_first p f xs = xs[i := f (xs ! i)]"
proof (induction xs arbitrary: i)
  case Nil
  then show ?case by simp
next
  case (Cons x xs)
  show ?case
  proof (cases i)
    case 0
    with Cons.prems show ?thesis by simp
  next
    case (Suc k)
    from Cons.prems Suc have "\<not> p x" by auto
    moreover from Cons.prems Suc have "k < length xs" "p (xs ! k)" "\<forall>j<k. \<not> p (xs ! j)"
      by auto
    ultimately show ?thesis using Cons.IH [of k] Suc by simp
  qed
qed

lemma length_update_first [simp]: "length (update_first p f xs) = length xs"
  by (induction xs) auto

lemma seeded_store_eq:
  "seeded_store = \<lparr>intentions = [],
     challenges = [\<lparr>c_id = 1, c_title = ''Weekly Rosary Challenge'', c_prayerType = ''Rosary'',
       c_totalTarget = 1000, c_currentCount = 42, c_isActive = Val True,
       c_createdAt = 1000, c_updatedAt = 1000\<rparr>],
     intentionId = 1, challengeId = 2\<rparr>"
  by (simp add: seeded_store_def createChallenge_def new_store_def seed_challenge_def
      deactivate_all_def Let_def)

lemma seeded_database_eq:
  "seeded_database = \<lparr>challenges_table =
       [\<lparr>r_id = 1, r_title = ''Weekly Rosary Challenge'', r_prayerType = ''Rosary'',
         r_totalTarget = 1000, r_currentCount = Some 42, r_isActive = Some True,
         r_createdAt = Some 1000\<rparr>],
     challenges_id_seq = 2\<rparr>"
  by (simp add: seeded_database_def db_createChallenge_def seed_challenge_def
      db_deactivate_active_def Let_def)

subsection \<open>Counting active challenges\<close>

lemma filter_active_deactivate_all [simp]: "filter is_active (deactivate_all cs) = []"
  by (induction cs) (auto simp: deactivate_all_def is_active_def)

lemma active_count_deactivate_all [simp]: "active_count (deactivate_all cs) = 0"
  by (simp add: active_count_def)

lemma active_count_append [simp]:
  "active_count (xs @ ys) = active_count xs + active_count ys"
  by (simp add: active_count_def)

lemma active_count_update_first_le:
  "(\<And>c. is_active (f c) \<Longrightarrow> is_active c)
     \<Longrightarrow> active_count (update_first p f cs) \<le> active_count cs"
  by (induction cs) (auto simp: active_count_def)

lemma active_count_update_first_Suc:
  "active_count (update_first p f cs) \<le> Suc (active_count cs)"
  by (induction cs) (auto simp: active_count_def)

lemma active_count_filter_le: "active_count (filter q cs) \<le> active_count cs"
  by (induction cs) (auto simp: active_count_def)

lemma assign_updates_not_activating:
  "\<not> truthy (uc_isActive u) \<Longrightarrow> is_active (assign_updates u now c) \<Longrightarrow> is_active c"
  by (cases "uc_isActive u") (auto simp: assign_updates_def is_active_def)

lemma createChallenge_keeps_exclusive:
  assumes "active_count (challenges s) \<le> 1"
  shows "active_count (challenges (fst (createChallenge s now inp))) \<le> 1"
proof (cases "truthy (ic_isActive inp)")
  case True
  then show ?thesis
    by (simp add: createChallenge_def Let_def active_count_def [of "[_]"])
next
  case False
  with assms show ?thesis
    by (simp add: createChallenge_def Let_def active_count_def [of "[_]"] is_active_def)
qed

lemma updateChallenge_keeps_exclusive:
  assumes "active_count (challenges s) \<le> 1"
  shows "active_count (challenges (fst (updateChallenge s now ident u))) \<le> 1"
proof (cases "find (\<lambda>c. c_id c = ident) (challenges s)")
  case None
  with assms show ?thesis by (simp add: updateChallenge_def)
next
  case (Some ch)
  show ?thesis
  proof (cases "truthy (uc_isActive u)")
    case True
    have "active_count (update_first (\<lambda>c. c_id c = ident) (assign_updates u now)
            (deactivate_all (challenges s))) \<le> Suc (active_count (deactivate_all (challenges s)))"
      by (rule active_count_update_first_Suc)
    with Some True show ?thesis by (simp add: updateChallenge_def Let_def)
  next
    case False
    then have "active_count (update_first (\<lambda>c. c_id c = ident) (assign_updates u now)
            (challenges s)) \<le> active_count (challenges s)"
      by (intro active_count_update_first_le) (rule assign_updates_not_activating)
    with Some False assms show ?thesis by (simp add: updateChallenge_def Let_def)
  qed
qed

lemma incrementChallenge_keeps_exclusive:
  assumes "active_count (challenges s) \<le> 1"
  shows "active_count (challenges (fst (incrementChallenge s now ident amount))) \<le> 1"
proof (cases "find (\<lambda>c. c_id c = ident) (challenges s)")
  case None
  with assms show ?thesis by (simp add: incrementChallenge_def)
next
  case (Some ch)
  have "active_count (update_first (\<lambda>c. c_id c = ident)
          (\<lambda>c. c\<lparr>c_currentCount := or_zero (Val (c_currentCount c)) + amount, c_updatedAt := now\<rparr>)
          (challenges s)) \<le> active_count (challenges s)"
    by (rule active_count_update_first_le) (simp add: is_active_def)
  with Some assms show ?thesis by (simp add: incrementChallenge_def)
qed

lemma deleteChallenge_keeps_exclusive:
  assumes "active_count (challenges s) \<le> 1"
  shows "active_count (challenges (deleteChallenge s ident)) \<le> 1"
  using assms active_count_filter_le [of "\<lambda>c. c_id c \<noteq> ident" "challenges s"]
  by (simp add: deleteChallenge_def)

lemma two_challenges_eq:
  "two_challenges = \<lparr>intentions = [],
     challenges = [\<lparr>c_id = 1, c_title = ''Weekly Rosary Challenge'', c_prayerType = ''Rosary'',
       c_totalTarget = 1000, c_currentCount = 42, c_isActive = Val True,
       c_createdAt = 1000, c_updatedAt = 1000\<rparr>,
       \<lparr>c_id = 2, c_title = ''Lent'', c_prayerType = ''Our Father'',
       c_totalTarget = 500, c_currentCount = 0, c_isActive = Absent,
       c_createdAt = 2000, c_updatedAt = 2000\<rparr>],
     intentionId = 1, challengeId = 3\<rparr>"
  by (simp add: two_challenges_def seeded_store_eq createChallenge_def no_flag_challenge_def Let_def)

lemma one_intention_eq:
  "one_intention = \<lparr>intentions = [\<lparr>i_id = 1, i_content = ''For clarity in my career path.'',
       i_name = Val ''Anonymous'', i_prayerType = Val ''Hail Mary'', i_hailMaryCount = 12,
       i_ourFatherCount = 0, i_rosaryCount = 0, i_isPrinted = False, i_createdAt = 1000,
       i_updatedAt = 1000\<rparr>],
     challenges = [], intentionId = 2, challengeId = 1\<rparr>"
  by (simp add: one_intention_def createIntention_def new_store_def seed_intention_def Let_def)

subsection \<open>Activating a challenge\<close>

lemma filter_list_update_sole:
  "\<forall>c\<in>set cs. \<not> q c \<Longrightarrow> q x \<Longrightarrow> k < length cs \<Longrightarrow> filter q (cs[k := x]) = [x]"
proof -
  assume a: "\<forall>c\<in>set cs. \<not> q c" and qx: "q x" and k: "k < length cs"
  have "filter q (take k cs) = []" "filter q (drop (Suc k) cs) = []"
    using a by (auto simp: filter_empty_conv dest: in_set_takeD in_set_dropD)
  with qx k show ?thesis
    by (simp add: upd_conv_take_nth_drop)
qed

lemma deactivate_all_inactive: "\<forall>c\<in>set (deactivate_all cs). \<not> is_active c"
  by (auto simp: deactivate_all_def is_active_def)

lemma is_active_assign_updates:
  "uc_isActive u = Val True \<Longrightarrow> is_active (assign_updates u now c)"
  by (simp add: assign_updates_def is_active_def)

lemma c_id_assign_updates [simp]: "c_id (assign_updates u now c) = c_id c"
  by (simp add: assign_updates_def)

lemma createChallenge_active_sole:
  assumes "ic_isActive inp = Val True"
  shows "filter is_active (challenges (fst (createChallenge s now inp)))
           = [snd (createChallenge s now inp)]
       \<and> c_id (snd (createChallenge s now inp)) = challengeId s
       \<and> challenges (fst (createChallenge s now inp))
           = deactivate_all (challenges s) @ [snd (createChallenge s now inp)]
       \<and> (\<forall>j<length (challenges s).
             \<not> is_active (challenges (fst (createChallenge s now inp)) ! j))"
proof -
  have "\<not> is_active (deactivate_all (challenges s) ! j)" if "j < length (challenges s)" for j
    using that by (simp add: deactivate_all_def is_active_def)
  moreover have "length (deactivate_all (challenges s)) = length (challenges s)"
    by (simp add: deactivate_all_def)
  ultimately show ?thesis
    using assms by (simp add: createChallenge_def Let_def is_active_def nth_append)
qed

lemma updateChallenge_active_sole:
  assumes f: "find (\<lambda>c. c_id c = ident) (challenges s) = Some ch0"
    and u: "uc_isActive u = Val True"
  shows "\<exists>ch. snd (updateChallenge s now ident u) = Some ch
           \<and> filter is_active (challenges (fst (updateChallenge s now ident u))) = [ch]
           \<and> c_id ch = ident
           \<and> length (challenges (fst (updateChallenge s now ident u))) = length (challenges s)
           \<and> (\<forall>j<length (challenges s). c_id (challenges s ! j) \<noteq> ident
                 \<longrightarrow> \<not> is_active (challenges (fst (updateChallenge s now ident u)) ! j))"
proof -
  let ?p = "\<lambda>c. c_id c = ident"
  let ?cs = "deactivate_all (challenges s)"
  let ?ch = "assign_updates u now (ch0\<lparr>c_isActive := Val False\<rparr>)"
  from f obtain k where k: "k < length (challenges s)" "?p (challenges s ! k)"
    "ch0 = challenges s ! k" "\<forall>j<k. \<not> ?p (challenges s ! j)"
    by (auto simp: find_Some_iff)
  have len: "length ?cs = length (challenges s)"
    by (simp add: deactivate_all_def)
  have nth: "?cs ! j = (challenges s ! j)\<lparr>c_isActive := Val False\<rparr>"
    if "j < length (challenges s)" for j
    using that by (simp add: deactivate_all_def)
  have "update_first ?p (assign_updates u now) ?cs = ?cs[k := assign_updates u now (?cs ! k)]"
    using k len nth by (intro update_first_at) auto
  then have upd: "update_first ?p (assign_updates u now) ?cs = ?cs[k := ?ch]"
    using k nth by simp
  have res: "updateChallenge s now ident u = (s\<lparr>challenges := ?cs[k := ?ch]\<rparr>, Some ?ch)"
    using f u upd by (simp add: updateChallenge_def Let_def)
  have sole: "filter is_active (?cs[k := ?ch]) = [?ch]"
    using deactivate_all_inactive is_active_assign_updates [OF u] k(1) len
    by (intro filter_list_update_sole) auto
  have others: "\<not> is_active (?cs[k := ?ch] ! j)"
    if "j < length (challenges s)" "c_id (challenges s ! j) \<noteq> ident" for j
  proof -
    from that k have "j \<noteq> k" by auto
    then have "?cs[k := ?ch] ! j = ?cs ! j" by simp
    with that nth show ?thesis by (simp add: is_active_def)
  qed
  from k have "c_id ?ch = ident" by simp
  with res sole others len show ?thesis by simp
qed

subsection \<open>Incrementing a prayer counter\<close>

lemma bump_prayer_frame:
  "i_content (bump_prayer ty now it) = i_content it"
  "i_name (bump_prayer ty now it) = i_name it"
  "i_prayerType (bump_prayer ty now it) = i_prayerType it"
  "i_isPrinted (bump_prayer ty now it) = i_isPrinted it"
  "i_createdAt (bump_prayer ty now it) = i_createdAt it"
  "i_id (bump_prayer ty now it) = i_id it"
  by (simp_all add: bump_prayer_def Let_def)

lemma bump_prayer_counters:
  "i_hailMaryCount (bump_prayer ty now it)
     = i_hailMaryCount it + (if ty = ''hailMary'' then 1 else 0)"
  "i_ourFatherCount (bump_prayer ty now it)
     = i_ourFatherCount it + (if ty = ''ourFather'' then 1 else 0)"
  "i_rosaryCount (bump_prayer ty now it)
     = i_rosaryCount it + (if ty = ''rosary'' then 1 else 0)"
  by (simp_all add: bump_prayer_def Let_def)

subsection \<open>Updating an unknown challenge in memory\<close>

lemma updateChallenge_unknown_id:
  "ident \<notin> c_id ` set (challenges s) \<Longrightarrow> updateChallenge s now ident u = (s, None)"
proof -
  assume "ident \<notin> c_id ` set (challenges s)"
  then have "find (\<lambda>c. c_id c = ident) (challenges s) = None"
    by (auto simp: find_None_iff)
  then show ?thesis by (simp add: updateChallenge_def)
qed

subsection \<open>Exclusivity in memory\<close>

text \<open>
  In the in-memory store, each of createChallenge, updateChallenge, incrementChallenge
  and deleteChallenge, started in a state in which at most one challenge is active, ends
  in a state in which at most one challenge is active. The state need not be reachable:
  the statement holds for every store.
\<close>

lemma memory_at_most_one_active_preserved:
  assumes "active_count (challenges s) \<le> 1"
  shows "active_count (challenges (fst (createChallenge s now inp))) \<le> 1
       \<and> active_count (challenges (fst (updateChallenge s now ident u))) \<le> 1
       \<and> active_count (challenges (fst (incrementChallenge s now ident amount))) \<le> 1
       \<and> active_count (challenges (deleteChallenge s ident)) \<le> 1"
  using assms
  by (intro conjI createChallenge_keeps_exclusive updateChallenge_keeps_exclusive
      incrementChallenge_keeps_exclusive deleteChallenge_keeps_exclusive)

lemma memory_at_most_one_active_example:
  "active_count (challenges seeded_store) \<le> 1
   \<and> active_count (challenges (fst (createChallenge seeded_store 2000 seed_challenge))) \<le> 1
   \<and> active_count (challenges (fst (updateChallenge seeded_store 2000 1 only_activate))) \<le> 1
   \<and> active_count (challenges (fst (incrementChallenge seeded_store 2000 1 1))) \<le> 1
   \<and> active_count (challenges (deleteChallenge seeded_store 1)) \<le> 1"
proof -
  have h: "active_count (challenges seeded_store) \<le> 1"
    by (simp add: seeded_store_eq active_count_def is_active_def)
  show ?thesis
    using h memory_at_most_one_active_preserved [OF h, of 2000 seed_challenge 1 only_activate 1]
    by simp
qed

section \<open>The claims\<close>

text \<open>
  C1. The claim says that every operation of the challenge store keeps at most one
  challenge active. The in-memory store does (\<open>memory_at_most_one_active_preserved\<close>).
  The database store does not: on the seeded table, whose one row is active,
  createChallenge with a request that has no isActive skips the deactivating statement,
  the inserted row takes the column default true, and two rows are active.
\<close>

theorem db_create_breaks_exclusivity:
  "db_active_count (challenges_table seeded_database) = 1
   \<and> ic_isActive no_flag_challenge = Absent
   \<and> r_isActive (snd (db_createChallenge seeded_database 2000 no_flag_challenge)) = Some True
   \<and> db_active_count
        (challenges_table (fst (db_createChallenge seeded_database 2000 no_flag_challenge))) = 2"
  by (simp add: db_createChallenge_def seeded_database_eq no_flag_challenge_def
      db_active_count_def Let_def)

text \<open>
  C2. When createChallenge is called with isActive true, the challenges marked active
  afterwards are exactly the new one: every challenge stored before has been
  deactivated. When updateChallenge is called with isActive true on an id that is
  stored, whatever else the update sets or does not set, the challenges marked active
  afterwards are exactly the updated one, and every stored challenge with another id is
  inactive.
\<close>

theorem activating_makes_target_sole_active:
  "(ic_isActive inp = Val True \<longrightarrow>
      filter is_active (challenges (fst (createChallenge s now inp)))
        = [snd (createChallenge s now inp)]
      \<and> c_id (snd (createChallenge s now inp)) = challengeId s
      \<and> challenges (fst (createChallenge s now inp))
          = deactivate_all (challenges s) @ [snd (createChallenge s now inp)]
      \<and> (\<forall>j<length (challenges s).
            \<not> is_active (challenges (fst (createChallenge s now inp)) ! j)))
   \<and> (find (\<lambda>c. c_id c = ident) (challenges s) = Some ch0 \<and> uc_isActive u = Val True \<longrightarrow>
        (\<exists>ch. snd (updateChallenge s now ident u) = Some ch
           \<and> filter is_active (challenges (fst (updateChallenge s now ident u))) = [ch]
           \<and> c_id ch = ident
           \<and> length (challenges (fst (updateChallenge s now ident u))) = length (challenges s)
           \<and> (\<forall>j<length (challenges s). c_id (challenges s ! j) \<noteq> ident
                 \<longrightarrow> \<not> is_active (challenges (fst (updateChallenge s now ident u)) ! j))))"
  using createChallenge_active_sole [of inp s now]
    updateChallenge_active_sole [of ident s ch0 u now]
  by blast

theorem activating_makes_target_sole_active_witness:
  "ic_isActive seed_challenge = Val True
   \<and> filter is_active (challenges (fst (createChallenge two_challenges 3000 seed_challenge)))
       = [snd (createChallenge two_challenges 3000 seed_challenge)]
   \<and> find (\<lambda>c. c_id c = 2) (challenges two_challenges) = Some (challenges two_challenges ! 1)
   \<and> uc_isActive only_activate = Val True
   \<and> (\<exists>ch. snd (updateChallenge two_challenges 3000 2 only_activate) = Some ch
        \<and> filter is_active (challenges (fst (updateChallenge two_challenges 3000 2 only_activate)))
            = [ch]
        \<and> c_id ch = 2)"
proof -
  have h1: "ic_isActive seed_challenge = Val True"
    by (simp add: seed_challenge_def)
  have h2: "find (\<lambda>c. c_id c = 2) (challenges two_challenges) = Some (challenges two_challenges ! 1)"
    by (simp add: two_challenges_eq)
  have h3: "uc_isActive only_activate = Val True"
    by (simp add: only_activate_def)
  show ?thesis
    using activating_makes_target_sole_active
      [of seed_challenge two_challenges 3000 2 "challenges two_challenges ! 1" only_activate]
      h1 h2 h3
    by blast
qed

text \<open>
  C4. The claim says that a challenge created without isActive is active and that the
  previously active one is deactivated. In the seeded store, creating without isActive
  gives a record whose isActive is missing, and challenge 1 stays the only active one.
  On the database the new row takes the column default true and row 1 stays active too:
  two active rows.
\<close>

theorem create_without_isActive_not_active:
  "c_isActive (snd (createChallenge seeded_store 2000 no_flag_challenge)) = Absent
   \<and> \<not> is_active (snd (createChallenge seeded_store 2000 no_flag_challenge))
   \<and> map c_id (filter is_active (challenges (fst (createChallenge seeded_store 2000 no_flag_challenge))))
       = [1]
   \<and> map c_id (filter is_active (challenges seeded_store)) = [1]
   \<and> map r_id (filter (\<lambda>r. r_isActive r = Some True)
        (challenges_table (fst (db_createChallenge seeded_database 2000 no_flag_challenge))))
       = [1, 2]"
  by (simp add: createChallenge_def db_createChallenge_def seeded_store_eq seeded_database_eq
      no_flag_challenge_def is_active_def Let_def)

text \<open>
  C5, as stated, fails: a request for challenge 1 (currentCount 42) that carries
  amount 5 is answered with currentCount 43.
\<close>

theorem increment_request_amount_ignored:
  "post_challenge_increment seeded_store 2000 \<lparr>param_id = 1, body_amount = Val 5\<rparr>
     = (seeded_store\<lparr>challenges := [(challenges seeded_store ! 0)\<lparr>c_currentCount := 43,
            c_updatedAt := 2000\<rparr>]\<rparr>,
        (200, ChallengeBody ((challenges seeded_store ! 0)\<lparr>c_currentCount := 43,
            c_updatedAt := 2000\<rparr>)))
   \<and> c_currentCount (challenges seeded_store ! 0) = 42
   \<and> (43::int) \<noteq> 42 + 5"
  by (simp add: post_challenge_increment_def incrementChallenge_def seeded_store_eq)

text \<open>
  C5, amended. For every stored challenge id and every increment request, whatever amount
  it carries, the handler answers 200 with the challenge whose currentCount has grown by
  exactly 1, and stores it; the store operation incrementChallenge itself adds the amount
  its caller passes.
\<close>

theorem increment_request_adds_one:
  assumes f: "find (\<lambda>c. c_id c = param_id req) (challenges s) = Some ch"
  shows "\<exists>k. k < length (challenges s) \<and> challenges s ! k = ch
           \<and> post_challenge_increment s now req
               = (s\<lparr>challenges := (challenges s)[k := ch\<lparr>c_currentCount := c_currentCount ch + 1,
                                                          c_updatedAt := now\<rparr>]\<rparr>,
                  (200, ChallengeBody (ch\<lparr>c_currentCount := c_currentCount ch + 1,
                                           c_updatedAt := now\<rparr>)))
           \<and> incrementChallenge s now (param_id req) amount
               = (s\<lparr>challenges := (challenges s)[k := ch\<lparr>c_currentCount := c_currentCount ch + amount,
                                                          c_updatedAt := now\<rparr>]\<rparr>,
                  Some (ch\<lparr>c_currentCount := c_currentCount ch + amount, c_updatedAt := now\<rparr>))"
proof -
  let ?p = "\<lambda>c. c_id c = param_id req"
  from f obtain k where k: "k < length (challenges s)" "?p (challenges s ! k)"
    "ch = challenges s ! k" "\<forall>j<k. \<not> ?p (challenges s ! j)"
    by (auto simp: find_Some_iff)
  have upd: "update_first ?p g (challenges s) = (challenges s)[k := g ch]" for g
    using k update_first_at [of k "challenges s" ?p g] by simp
  have inc: "incrementChallenge s now (param_id req) a
      = (s\<lparr>challenges := (challenges s)[k := ch\<lparr>c_currentCount := c_currentCount ch + a,
                                                 c_updatedAt := now\<rparr>]\<rparr>,
         Some (ch\<lparr>c_currentCount := c_currentCount ch + a, c_updatedAt := now\<rparr>))" for a
    using f by (simp add: incrementChallenge_def upd)
  show ?thesis
    apply (rule exI [of _ k])
    using k(1,3) inc [of 1] inc [of amount] by (simp add: post_challenge_increment_def)
qed

theorem increment_request_adds_one_witness:
  "find (\<lambda>c. c_id c = 1) (challenges seeded_store) = Some (challenges seeded_store ! 0)
   \<and> snd (post_challenge_increment seeded_store 2000 \<lparr>param_id = 1, body_amount = Val 5\<rparr>)
       = (200, ChallengeBody ((challenges seeded_store ! 0)\<lparr>c_currentCount := 43,
            c_updatedAt := 2000\<rparr>))
   \<and> snd (incrementChallenge seeded_store 2000 1 5)
       = Some ((challenges seeded_store ! 0)\<lparr>c_currentCount := 47, c_updatedAt := 2000\<rparr>)"
proof -
  have h: "find (\<lambda>c. c_id c = param_id \<lparr>param_id = 1, body_amount = Val 5\<rparr>)
             (challenges seeded_store) = Some (challenges seeded_store ! 0)"
    by (simp add: seeded_store_eq)
  have c: "c_currentCount (challenges seeded_store ! 0) = 42"
    by (simp add: seeded_store_eq)
  from increment_request_adds_one [OF h, of 2000 5] h c show ?thesis
    by auto
qed

text \<open>
  C6. For a stored intention id and each of the three prayer types,
  incrementIntentionPrayer replaces the found intention (the first with that id, at
  position k) by one whose counter named by the type is 1 higher, whose other two
  counters, content, name, prayerType, isPrinted, createdAt and id are the same, and
  changes nothing else in the store: every other position of the array is as before.
\<close>

theorem pray_increments_only_named_counter:
  assumes f: "find (\<lambda>i. i_id i = ident) (intentions s) = Some it"
    and ty: "ty \<in> {''hailMary'', ''ourFather'', ''rosary''}"
  shows "\<exists>k it'. k < length (intentions s) \<and> intentions s ! k = it
           \<and> incrementIntentionPrayer s now ident ty
               = (s\<lparr>intentions := (intentions s)[k := it']\<rparr>, Some it')
           \<and> (\<forall>j. j \<noteq> k \<longrightarrow> (intentions s)[k := it'] ! j = intentions s ! j)
           \<and> i_hailMaryCount it' = i_hailMaryCount it + (if ty = ''hailMary'' then 1 else 0)
           \<and> i_ourFatherCount it' = i_ourFatherCount it + (if ty = ''ourFather'' then 1 else 0)
           \<and> i_rosaryCount it' = i_rosaryCount it + (if ty = ''rosary'' then 1 else 0)
           \<and> i_content it' = i_content it \<and> i_name it' = i_name it
           \<and> i_prayerType it' = i_prayerType it \<and> i_isPrinted it' = i_isPrinted it
           \<and> i_createdAt it' = i_createdAt it \<and> i_id it' = i_id it"
proof -
  let ?p = "\<lambda>i. i_id i = ident"
  from f obtain k where k: "k < length (intentions s)" "?p (intentions s ! k)"
    "it = intentions s ! k" "\<forall>j<k. \<not> ?p (intentions s ! j)"
    by (auto simp: find_Some_iff)
  then have "update_first ?p (bump_prayer ty now) (intentions s)
      = (intentions s)[k := bump_prayer ty now it]"
    using update_first_at [of k "intentions s" ?p "bump_prayer ty now"] by simp
  with f have res: "incrementIntentionPrayer s now ident ty
      = (s\<lparr>intentions := (intentions s)[k := bump_prayer ty now it]\<rparr>, Some (bump_prayer ty now it))"
    by (simp add: incrementIntentionPrayer_def)
  show ?thesis
    apply (rule exI [of _ k])
    apply (rule exI [of _ "bump_prayer ty now it"])
    using k(1,3) res by (simp add: bump_prayer_frame bump_prayer_counters)
qed

theorem pray_increments_only_named_counter_witness:
  "find (\<lambda>i. i_id i = 1) (intentions one_intention) = Some (intentions one_intention ! 0)
   \<and> ''rosary'' \<in> {''hailMary'', ''ourFather'', ''rosary''}
   \<and> (\<exists>it'. incrementIntentionPrayer one_intention 2000 1 ''rosary''
               = (one_intention\<lparr>intentions := [it']\<rparr>, Some it')
         \<and> i_hailMaryCount it' = 12 \<and> i_ourFatherCount it' = 0 \<and> i_rosaryCount it' = 1)"
proof -
  have h1: "find (\<lambda>i. i_id i = 1) (intentions one_intention) = Some (intentions one_intention ! 0)"
    by (simp add: one_intention_eq)
  have h2: "''rosary'' \<in> {''hailMary'', ''ourFather'', ''rosary''}"
    by simp
  have l: "length (intentions one_intention) = 1"
    "i_hailMaryCount (intentions one_intention ! 0) = 12"
    "i_ourFatherCount (intentions one_intention ! 0) = 0"
    "i_rosaryCount (intentions one_intention ! 0) = 0"
    by (simp_all add: one_intention_eq)
  from pray_increments_only_named_counter [OF h1 h2, of 2000]
  obtain k it' where r: "k < length (intentions one_intention)"
    "incrementIntentionPrayer one_intention 2000 1 ''rosary''
       = (one_intention\<lparr>intentions := (intentions one_intention)[k := it']\<rparr>, Some it')"
    "i_hailMaryCount it' = i_hailMaryCount (intentions one_intention ! 0) + 0"
    "i_ourFatherCount it' = i_ourFatherCount (intentions one_intention ! 0) + 0"
    "i_rosaryCount it' = i_rosaryCount (intentions one_intention ! 0) + 1"
    by auto
  from r(1) l(1) have "k = 0" by simp
  moreover have "(intentions one_intention)[0 := it'] = [it']"
    by (simp add: one_intention_eq)
  ultimately show ?thesis using h1 h2 r l by auto
qed

text \<open>
  C7. For an id that no stored intention carries and each of the three prayer types,
  incrementIntentionPrayer returns \<^verbatim>\<open>undefined\<close> (\<open>None\<close>) and leaves the store as it
  is, and the handler of \<^verbatim>\<open>POST /api/intentions/:id/pray\<close> answers 404 with the message
  "Intention not found".
\<close>

theorem pray_unknown_id_not_found:
  assumes "ident \<notin> i_id ` set (intentions s)"
    and "ty \<in> {''hailMary'', ''ourFather'', ''rosary''}"
  shows "incrementIntentionPrayer s now ident ty = (s, None)
       \<and> post_intention_pray s now ident (Val ty) = (s, (404, Message ''Intention not found''))"
proof -
  from assms(1) have "find (\<lambda>i. i_id i = ident) (intentions s) = None"
    by (auto simp: find_None_iff)
  then have inc: "incrementIntentionPrayer s now ident ty = (s, None)"
    by (simp add: incrementIntentionPrayer_def)
  from assms(2) have "ty \<in> set [''hailMary'', ''ourFather'', ''rosary'']"
    by simp
  with inc show ?thesis
    by (simp add: post_intention_pray_def del: set_simps)
qed

theorem pray_unknown_id_not_found_witness:
  "incrementIntentionPrayer new_store 5 7 ''hailMary'' = (new_store, None)
   \<and> post_intention_pray new_store 5 7 (Val ''hailMary'')
       = (new_store, (404, Message ''Intention not found''))"
  using pray_unknown_id_not_found [of 7 new_store "''hailMary''" 5]
  by (simp add: new_store_def)

text \<open>
  C8. The claim asks for a "not found" signal when the deleted id is unknown. The
  handler of \<^verbatim>\<open>DELETE /api/admin/challenges/:id\<close> answers 204 with no body: here for
  id 99 on a new, empty store.
\<close>

theorem delete_unknown_id_reports_success:
  "delete_admin_challenge new_store 99 = (new_store, (204, NoBody))"
  by (simp add: delete_admin_challenge_def deleteChallenge_def new_store_def)

text \<open>
  C9. Creating an intention from a request that has only content and name, in any
  store, and then listing the intentions gives a list that contains the created record,
  with that content and name, the three counters 0, isPrinted false, the id taken from
  the store's id counter and createdAt the time of the call.
\<close>

theorem created_intention_is_listed:
  "(case createIntention s now \<lparr>ii_content = c, ii_name = Val n, ii_prayerType = Absent,
        ii_hailMaryCount = Absent, ii_ourFatherCount = Absent, ii_rosaryCount = Absent,
        ii_isPrinted = Absent\<rparr> of
      (s', r) \<Rightarrow>
        r \<in> set (getIntentions s') \<and> i_content r = c \<and> i_name r = Val n
        \<and> i_hailMaryCount r = 0 \<and> i_ourFatherCount r = 0 \<and> i_rosaryCount r = 0
        \<and> \<not> i_isPrinted r \<and> i_id r = intentionId s \<and> i_createdAt r = now
        \<and> length (getIntentions s') = Suc (length (getIntentions s)))"
  by (simp add: createIntention_def getIntentions_def Let_def)

text \<open>
  C10. The claim says that an update of an unknown id changes no stored challenge. The
  in-memory store does that (\<open>updateChallenge_unknown_id\<close>). The database store runs
  the deactivating statement before it looks for the id: updating id 99 with
  \<^verbatim>\<open>{ isActive: true }\<close> on the seeded table returns no row and leaves row 1 inactive.
\<close>

theorem db_failed_update_deactivates:
  "99 \<notin> r_id ` set (challenges_table seeded_database)
   \<and> db_active_count (challenges_table seeded_database) = 1
   \<and> db_updateChallenge seeded_database 99 only_activate
       = Inr (seeded_database\<lparr>challenges_table :=
                [(challenges_table seeded_database ! 0)\<lparr>r_isActive := Some False\<rparr>]\<rparr>, None)
   \<and> db_active_count [(challenges_table seeded_database ! 0)\<lparr>r_isActive := Some False\<rparr>] = 0"
  by (simp add: db_updateChallenge_def seeded_database_eq only_activate_def
      db_deactivate_active_def db_active_count_def Let_def)

end
